theory Spec2Isabelle
  imports Main
begin

section \<open>Data model\<close>

text \<open>
  JavaScript strings are modelled as \<open>string\<close>: a list of code units, \<open>length\<close> being
  the source's \<open>.length\<close>. Timestamps (\<open>Date\<close>) are the integer number of milliseconds that
  \<open>getTime()\<close> returns. \<open>Date.now()\<close>, \<open>Math.random()\<close> and \<open>generateId()\<close> are inputs of
  the functions that call them.
\<close>

datatype callStatus = Incoming | Outgoing | Connected | Ended | Failed

datatype provider = Asterisk | Twilio

record call =
  c_id :: string
  c_from :: string
  c_to :: string
  status :: callStatus
  startTime :: int
  endTime :: "int option"
  duration :: "int option"
  channel :: "string option"
  twilioCallSid :: "string option"
  provider :: provider

text \<open>\<open>Partial<Call>\<close> as the services build it: only these three fields are ever named.\<close>

record callUpdates =
  u_status :: "callStatus option"
  u_endTime :: "int option"
  u_duration :: "int option"

datatype eventData =
    DCall call
  | DCause "string option" "int option"
  | DChannel "string option"
  | DStatus callStatus "string option"

record callEvent =
  ev_type :: callStatus
  ev_callId :: string
  ev_data :: eventData

record callRequest =
  req_from :: string
  req_to :: string
  req_provider :: "provider option"

section \<open>Provider router (call.service.ts)\<close>

definition startsWith :: "string \<Rightarrow> string \<Rightarrow> bool" where
  "startsWith s p = (take (length p) s = p)"

definition determineProvider :: "callRequest \<Rightarrow> provider" where
  "determineProvider request =
     (case req_provider request of
        Some p \<Rightarrow> p
      | None \<Rightarrow>
          if startsWith (req_to request) ''+'' \<or> length (req_to request) > 6 then Twilio
          else Asterisk)"

section \<open>Cloud status lookup (twilio.service.ts)\<close>

definition mapTwilioStatusToCallStatus :: "string \<Rightarrow> callStatus" where
  "mapTwilioStatusToCallStatus twilioStatus =
     (if twilioStatus = ''queued'' \<or> twilioStatus = ''ringing'' then Incoming
      else if twilioStatus = ''in-progress'' then Connected
      else if twilioStatus = ''completed'' \<or> twilioStatus = ''busy'' \<or> twilioStatus = ''no-answer''
              \<or> twilioStatus = ''failed'' \<or> twilioStatus = ''canceled'' then Ended
      else Failed)"


section \<open>Call repository (call.repository.ts)\<close>

type_synonym store = "string \<rightharpoonup> call"

definition createCall :: "call \<Rightarrow> store \<Rightarrow> store" where
  "createCall c calls = calls(c_id c \<mapsto> c)"

definition getCall :: "string \<Rightarrow> store \<Rightarrow> call option" where
  "getCall i calls = calls i"

text \<open>The spread \<open>{ ...call, ...updates }\<close>: a field of \<open>updates\<close> that is present wins.\<close>

definition mergeCall :: "call \<Rightarrow> callUpdates \<Rightarrow> call" where
  "mergeCall c u =
     c\<lparr>status := (case u_status u of None \<Rightarrow> status c | Some x \<Rightarrow> x),
       endTime := (case u_endTime u of None \<Rightarrow> endTime c | Some e \<Rightarrow> Some e),
       duration := (case u_duration u of None \<Rightarrow> duration c | Some d \<Rightarrow> Some d)\<rparr>"

definition updateCall :: "string \<Rightarrow> callUpdates \<Rightarrow> store \<Rightarrow> store" where
  "updateCall i u calls =
     (case calls i of None \<Rightarrow> calls | Some c \<Rightarrow> calls(i \<mapsto> mergeCall c u))"

section \<open>PBX protocol client (asterisk.service.ts)\<close>

type_synonym amiResponse = "string \<rightharpoonup> string"

datatype error =
    NotConnected
  | CommandTimeout string
  | OriginateFailed "string option"
  | CallNotFoundOrNoChannel
  | CallNotFound
  | NotIncoming
  | TwilioNotInitialized
  | TwilioApiError string
  | TwilioHandledByWebhooks
  | TwilioSimulationUnsupported
  | FailedTo string error

text \<open>
  What runs when the promise of \<open>sendAmiCommand\<close> settles: the rest of the function that
  awaits it. \<open>KCaller\<close> is a caller outside the service (the function is exported).
\<close>

datatype cont =
    KLogin
  | KEvents
  | KOriginate string string string
  | KHangup string call
  | KReject string
  | KCaller nat

record sys =
  isConnected :: bool
  connectionAttempts :: nat
  amiSocket :: bool
  actionId :: nat
  pendingActions :: "string \<rightharpoonup> cont"
  actionTimeouts :: "(string \<times> string \<times> nat) list"
  reconnectTimer :: "nat option"
  written :: "string list"
  settled :: "(string \<times> cont \<times> (error + amiResponse)) list"
  finished :: "(cont \<times> (error + string)) list"
  connectEmitted :: nat
  asteriskEvents :: "callEvent list"
  twilioEvents :: "callEvent list"
  calls :: store
  cfg_username :: string
  cfg_password :: string
  twilioClient :: bool

definition maxRetries :: nat where
  "maxRetries = 5"

text \<open>
  The state right after \<open>createCallService()\<close>: the first \<open>connectToAsterisk()\<close> has
  created the socket and asked for the connection.
\<close>

definition initial :: "string \<Rightarrow> string \<Rightarrow> bool \<Rightarrow> sys" where
  "initial user pass client =
     \<lparr>isConnected = False, connectionAttempts = 0, amiSocket = True, actionId = 0,
      pendingActions = Map.empty, actionTimeouts = [], reconnectTimer = None, written = [],
      settled = [], finished = [], connectEmitted = 0, asteriskEvents = [], twilioEvents = [],
      calls = Map.empty, cfg_username = user, cfg_password = pass, twilioClient = client\<rparr>"

subsection \<open>Action identifiers and frames\<close>

definition digit :: "nat \<Rightarrow> char" where
  "digit d = ''0123456789'' ! d"

fun show_nat :: "nat \<Rightarrow> string" where
  "show_nat n = (if n < 10 then [digit n] else show_nat (n div 10) @ [digit (n mod 10)])"

declare show_nat.simps [simp del]

definition show_int :: "int \<Rightarrow> string" where
  "show_int i = (if i < 0 then ''-'' @ show_nat (nat (- i)) else show_nat (nat i))"

definition CRLF :: string where
  "CRLF = [CHR 0x0D, CHR 0x0A]"

text \<open>\<open>`action_${++actionId}_${Date.now()}`\<close>, for the counter already incremented.\<close>

definition generateActionId :: "nat \<Rightarrow> int \<Rightarrow> string" where
  "generateActionId n now = ''action_'' @ show_nat n @ ''_'' @ show_int now"

text \<open>
  The message of \<open>sendAmiCommand\<close>. \<open>params\<close> is \<open>Object.entries(params)\<close>, each value
  already converted to a string as the template literal does.
\<close>

definition amiMessage :: "string \<Rightarrow> string \<Rightarrow> (string \<times> string) list \<Rightarrow> string" where
  "amiMessage command actionIdValue params =
     foldl (\<lambda>message (key, val). message @ key @ '': '' @ val @ CRLF)
       (''Action: '' @ command @ CRLF @ ''ActionID: '' @ actionIdValue @ CRLF) params
     @ CRLF"

datatype sendResult = Rejected error | Registered string

definition sendAmiCommand ::
  "string \<Rightarrow> (string \<times> string) list \<Rightarrow> int \<Rightarrow> cont \<Rightarrow> sys \<Rightarrow> sendResult \<times> sys" where
  "sendAmiCommand command params now k s =
     (if \<not> isConnected s \<or> \<not> amiSocket s then (Rejected NotConnected, s)
      else
        let n = actionId s + 1;
            actionIdValue = generateActionId n now
        in (Registered actionIdValue,
            s\<lparr>actionId := n,
              pendingActions := (pendingActions s)(actionIdValue \<mapsto> k),
              actionTimeouts := actionTimeouts s @ [(actionIdValue, command, 10000)],
              written := written s @ [amiMessage command actionIdValue params]\<rparr>))"

subsection \<open>Events from the PBX\<close>

text \<open>Truthiness of an optional string field: present and not empty.\<close>

definition truthy :: "string option \<Rightarrow> bool" where
  "truthy x = (case x of None \<Rightarrow> False | Some v \<Rightarrow> v \<noteq> [])"

definition orElse :: "string option \<Rightarrow> string \<Rightarrow> string" where
  "orElse x d = (case x of None \<Rightarrow> d | Some v \<Rightarrow> if v = [] then d else v)"

definition emitAsterisk :: "callEvent \<Rightarrow> sys \<Rightarrow> sys" where
  "emitAsterisk ev s = s\<lparr>asteriskEvents := asteriskEvents s @ [ev]\<rparr>"

definition emitTwilio :: "callEvent \<Rightarrow> sys \<Rightarrow> sys" where
  "emitTwilio ev s = s\<lparr>twilioEvents := twilioEvents s @ [ev]\<rparr>"

text \<open>
  The handlers of PBX events are async functions, and the socket's data handler calls
  \<open>handleAmiMessage\<close> for every complete message of a chunk without awaiting them. So each
  handler runs at once up to its first \<open>await\<close> and leaves the rest as a task on the
  microtask queue, and the handlers of all messages of the chunk are started before any
  task runs. The repository's functions do their work when they are called; awaiting their
  result only yields. A task holds what the handler had read before it yielded.
\<close>

datatype task =
    TEmit callEvent
  | THangup string "string option" int "call option"
  | TConnected string "string option" "call option"
  | TSettled cont amiResponse nat int

text \<open>\<open>createCall\<close> has stored the call when the handler yields; the event is emitted after.\<close>

definition handleIncomingCall :: "amiResponse \<Rightarrow> string \<Rightarrow> int \<Rightarrow> sys \<Rightarrow> sys \<times> task list" where
  "handleIncomingCall event gen now s =
     (let c = \<lparr>c_id = orElse (event ''Uniqueid'') gen,
                c_from = orElse (event ''CallerIDNum'') ''Unknown'',
                c_to = orElse (event ''Exten'') ''1001'',
                status = Incoming, startTime = now, endTime = None, duration = None,
                channel = event ''Channel'', twilioCallSid = None, provider = Asterisk\<rparr>
      in (s\<lparr>calls := createCall c (calls s)\<rparr>,
          [TEmit \<lparr>ev_type = Incoming, ev_callId = c_id c, ev_data = DCall c\<rparr>]))"

text \<open>
  \<open>getCall\<close> has read the record when the handler yields; the test of the record, the
  update and the event come after, on the record as it was read.
\<close>

definition handleCallHangup :: "amiResponse \<Rightarrow> int \<Rightarrow> sys \<Rightarrow> sys \<times> task list" where
  "handleCallHangup event now s =
     (case event ''Uniqueid'' of
        None \<Rightarrow> (s, [])
      | Some callId \<Rightarrow>
          if callId = [] then (s, [])
          else (s, [THangup callId (event ''Cause'') now (getCall callId (calls s))]))"

definition handleCallConnected :: "amiResponse \<Rightarrow> sys \<Rightarrow> sys \<times> task list" where
  "handleCallConnected event s =
     (case event ''Uniqueid'' of
        None \<Rightarrow> (s, [])
      | Some callId \<Rightarrow>
          if callId = [] then (s, [])
          else (s, [TConnected callId (event ''Channel'') (getCall callId (calls s))]))"

definition handleAmiEvent :: "amiResponse \<Rightarrow> string \<Rightarrow> int \<Rightarrow> sys \<Rightarrow> sys \<times> task list" where
  "handleAmiEvent event gen now s =
     (if event ''Event'' = Some ''Newchannel'' then
        (if truthy (event ''Exten'') \<and> truthy (event ''CallerIDNum'')
         then handleIncomingCall event gen now s else (s, []))
      else if event ''Event'' = Some ''Hangup'' then
        (if truthy (event ''Uniqueid'') then handleCallHangup event now s else (s, []))
      else if event ''Event'' = Some ''Newstate'' then
        (if event ''ChannelState'' = Some ''6'' then handleCallConnected event s else (s, []))
      else (s, []))"

subsection \<open>Call operations\<close>

text \<open>
  An operation returns, throws, or is suspended on the command it awaits (the action
  identifier says which); the rest of a suspended operation runs when that command settles.
  A call of an exported function starts in a task of its own (a request, a socket.io
  event), so between its awaits of the repository nothing else runs.
\<close>

datatype 'a outcome = Done 'a | Threw error | Awaiting string

definition finishMakeCall :: "string \<Rightarrow> string \<Rightarrow> string \<Rightarrow> nat \<Rightarrow> int \<Rightarrow> sys \<Rightarrow> sys" where
  "finishMakeCall callId from_n to_n rnd now s =
     (let c = \<lparr>c_id = callId, c_from = from_n, c_to = to_n, status = Outgoing,
                startTime = now, endTime = None, duration = None,
                channel = Some (''SIP/'' @ from_n @ ''-'' @ show_nat rnd),
                twilioCallSid = None, provider = Asterisk\<rparr>
      in emitAsterisk \<lparr>ev_type = Outgoing, ev_callId = c_id c, ev_data = DCall c\<rparr>
           (s\<lparr>calls := createCall c (calls s)\<rparr>))"

definition originateParams :: "string \<Rightarrow> string \<Rightarrow> string \<Rightarrow> (string \<times> string) list" where
  "originateParams from_n to_n callId =
     [(''Channel'', ''SIP/'' @ from_n), (''Context'', ''default''), (''Exten'', to_n),
      (''Priority'', ''1''), (''CallerID'', from_n), (''Timeout'', ''30000''),
      (''ActionID'', callId)]"

definition makeCall ::
  "string \<Rightarrow> string \<Rightarrow> string \<Rightarrow> nat \<Rightarrow> int \<Rightarrow> sys \<Rightarrow> string outcome \<times> sys" where
  "makeCall from_n to_n gen rnd now s =
     (if isConnected s then
        (case sendAmiCommand ''Originate'' (originateParams from_n to_n gen) now
                (KOriginate gen from_n to_n) s of
           (Rejected e, s') \<Rightarrow> (Threw e, s')
         | (Registered a, s') \<Rightarrow> (Awaiting a, s'))
      else (Done gen, finishMakeCall gen from_n to_n rnd now s))"

definition finishHangup :: "string \<Rightarrow> call \<Rightarrow> int \<Rightarrow> sys \<Rightarrow> sys" where
  "finishHangup callId c now s =
     (let d = (now - startTime c) div 1000
      in emitAsterisk
           \<lparr>ev_type = Ended, ev_callId = callId, ev_data = DCause (Some ''hangup'') (Some d)\<rparr>
           (s\<lparr>calls := updateCall callId
                 \<lparr>u_status = Some Ended, u_endTime = Some now, u_duration = Some d\<rparr>
                 (calls s)\<rparr>))"

definition hangupCall :: "string \<Rightarrow> int \<Rightarrow> sys \<Rightarrow> unit outcome \<times> sys" where
  "hangupCall callId now s =
     (case getCall callId (calls s) of
        None \<Rightarrow> (Threw CallNotFoundOrNoChannel, s)
      | Some c \<Rightarrow>
          (case channel c of
             None \<Rightarrow> (Threw CallNotFoundOrNoChannel, s)
           | Some ch \<Rightarrow>
               if ch = [] then (Threw CallNotFoundOrNoChannel, s)
               else if isConnected s then
                 (case sendAmiCommand ''Hangup'' [(''Channel'', ch)] now (KHangup callId c) s of
                    (Rejected e, s') \<Rightarrow> (Threw e, s')
                  | (Registered a, s') \<Rightarrow> (Awaiting a, s'))
               else (Done (), finishHangup callId c now s)))"

definition acceptCall :: "string \<Rightarrow> sys \<Rightarrow> unit outcome \<times> sys" where
  "acceptCall callId s =
     (case getCall callId (calls s) of
        None \<Rightarrow> (Threw CallNotFound, s)
      | Some c \<Rightarrow>
          if status c \<noteq> Incoming then (Threw NotIncoming, s)
          else (Done (),
                emitAsterisk
                  \<lparr>ev_type = Connected, ev_callId = c_id c, ev_data = DChannel (channel c)\<rparr>
                  (s\<lparr>calls := updateCall callId
                        \<lparr>u_status = Some Connected, u_endTime = None, u_duration = None\<rparr>
                        (calls s)\<rparr>)))"

definition finishReject :: "string \<Rightarrow> int \<Rightarrow> sys \<Rightarrow> sys" where
  "finishReject callId now s =
     emitAsterisk
       \<lparr>ev_type = Ended, ev_callId = callId, ev_data = DCause (Some ''rejected'') None\<rparr>
       (s\<lparr>calls := updateCall callId
             \<lparr>u_status = Some Ended, u_endTime = Some now, u_duration = None\<rparr>
             (calls s)\<rparr>)"

definition rejectCall :: "string \<Rightarrow> int \<Rightarrow> sys \<Rightarrow> unit outcome \<times> sys" where
  "rejectCall callId now s =
     (case getCall callId (calls s) of
        None \<Rightarrow> (Threw CallNotFound, s)
      | Some c \<Rightarrow>
          if status c \<noteq> Incoming then (Threw NotIncoming, s)
          else if isConnected s \<and> truthy (channel c) then
            (case sendAmiCommand ''Hangup'' [(''Channel'', orElse (channel c) [])] now
                    (KReject callId) s of
               (Rejected e, s') \<Rightarrow> (Done (), finishReject callId now s')
             | (Registered a, s') \<Rightarrow> (Awaiting a, s'))
          else (Done (), finishReject callId now s))"

definition simulateIncomingCall ::
  "string \<Rightarrow> string \<Rightarrow> string \<Rightarrow> nat \<Rightarrow> int \<Rightarrow> sys \<Rightarrow> string outcome \<times> sys" where
  "simulateIncomingCall fromNumber toNumber gen rnd now s =
     (let c = \<lparr>c_id = gen, c_from = fromNumber, c_to = toNumber, status = Incoming,
                startTime = now, endTime = None, duration = None,
                channel = Some (''SIP/simulated-'' @ show_nat rnd),
                twilioCallSid = None, provider = Asterisk\<rparr>
      in (Done gen,
          emitAsterisk \<lparr>ev_type = Incoming, ev_callId = c_id c, ev_data = DCall c\<rparr>
            (s\<lparr>calls := createCall c (calls s)\<rparr>)))"

subsection \<open>Settling a pending action\<close>

text \<open>
  The code after \<open>await sendAmiCommand(...)\<close> in each caller, for a response and for a
  rejection. The result holds what the suspended operation then returns or throws; for a
  response, also the events it emits after its await of the repository.
\<close>

definition setupEventListeners :: "int \<Rightarrow> sys \<Rightarrow> sys" where
  "setupEventListeners now s =
     snd (sendAmiCommand ''Events'' [(''EventMask'', ''call,system'')] now KEvents s)"

definition resolved ::
  "cont \<Rightarrow> amiResponse \<Rightarrow> nat \<Rightarrow> int \<Rightarrow> sys \<Rightarrow> (error + string) \<times> sys \<times> callEvent list" where
  "resolved k response rnd now s =
     (case k of
        KLogin \<Rightarrow>
          (Inr [],
           setupEventListeners now
             (s\<lparr>isConnected := True, connectionAttempts := 0,
                connectEmitted := connectEmitted s + 1\<rparr>),
           [])
      | KEvents \<Rightarrow> (Inr [], s, [])
      | KOriginate callId from_n to_n \<Rightarrow>
          if response ''Response'' = Some ''Success''
          then
            (let c = \<lparr>c_id = callId, c_from = from_n, c_to = to_n, status = Outgoing,
                       startTime = now, endTime = None, duration = None,
                       channel = Some (''SIP/'' @ from_n @ ''-'' @ show_nat rnd),
                       twilioCallSid = None, provider = Asterisk\<rparr>
             in (Inr callId, s\<lparr>calls := createCall c (calls s)\<rparr>,
                 [\<lparr>ev_type = Outgoing, ev_callId = c_id c, ev_data = DCall c\<rparr>]))
          else (Inl (OriginateFailed (response ''Message'')), s, [])
      | KHangup callId c \<Rightarrow>
          (let d = (now - startTime c) div 1000
           in (Inr [],
               s\<lparr>calls := updateCall callId
                     \<lparr>u_status = Some Ended, u_endTime = Some now, u_duration = Some d\<rparr>
                     (calls s)\<rparr>,
               [\<lparr>ev_type = Ended, ev_callId = callId,
                 ev_data = DCause (Some ''hangup'') (Some d)\<rparr>]))
      | KReject callId \<Rightarrow>
          (Inr [],
           s\<lparr>calls := updateCall callId
                 \<lparr>u_status = Some Ended, u_endTime = Some now, u_duration = None\<rparr>
                 (calls s)\<rparr>,
           [\<lparr>ev_type = Ended, ev_callId = callId, ev_data = DCause (Some ''rejected'') None\<rparr>])
      | KCaller n \<Rightarrow> (Inr [], s, []))"

definition rejected :: "cont \<Rightarrow> error \<Rightarrow> int \<Rightarrow> sys \<Rightarrow> (error + string) \<times> sys" where
  "rejected k e now s =
     (case k of
        KLogin \<Rightarrow> (Inl e, s\<lparr>isConnected := False\<rparr>)
      | KEvents \<Rightarrow> (Inr [], s)
      | KOriginate callId from_n to_n \<Rightarrow> (Inl e, s)
      | KHangup callId c \<Rightarrow> (Inl e, s)
      | KReject callId \<Rightarrow> (Inr [], finishReject callId now s)
      | KCaller n \<Rightarrow> (Inl e, s))"

text \<open>
  \<open>handleAmiMessage\<close>: a message that bears the identifier of a pending action resolves
  that action's promise, and the code awaiting it becomes a task; else a message with an
  \<open>Event\<close> field goes to \<open>handleAmiEvent\<close>.
\<close>

definition handleAmiMessage ::
  "amiResponse \<Rightarrow> string \<Rightarrow> nat \<Rightarrow> int \<Rightarrow> sys \<Rightarrow> sys \<times> task list" where
  "handleAmiMessage message gen rnd now s =
     (case (if truthy (message ''ActionID'')
            then pendingActions s (orElse (message ''ActionID'') []) else None) of
        Some k \<Rightarrow>
          let a = orElse (message ''ActionID'') []
          in (s\<lparr>pendingActions := (pendingActions s)(a := None),
                settled := settled s @ [(a, k, Inr message)]\<rparr>,
              [TSettled k message rnd now])
      | None \<Rightarrow>
          if truthy (message ''Event'') then handleAmiEvent message gen now s else (s, []))"

text \<open>
  A task runs up to its next \<open>await\<close>. What follows that \<open>await\<close> in every handler is
  the emission of one event: the second component.
\<close>

definition runTask :: "task \<Rightarrow> sys \<Rightarrow> sys \<times> callEvent list" where
  "runTask t s =
     (case t of
        TEmit ev \<Rightarrow> (emitAsterisk ev s, [])
      | THangup callId cause now read \<Rightarrow>
          (case read of
             None \<Rightarrow> (s, [])
           | Some c \<Rightarrow>
               let d = (now - startTime c) div 1000
               in (s\<lparr>calls := updateCall callId
                        \<lparr>u_status = Some Ended, u_endTime = Some now, u_duration = Some d\<rparr>
                        (calls s)\<rparr>,
                   [\<lparr>ev_type = Ended, ev_callId = callId, ev_data = DCause cause (Some d)\<rparr>]))
      | TConnected callId chan read \<Rightarrow>
          (case read of
             None \<Rightarrow> (s, [])
           | Some c \<Rightarrow>
               if status c \<noteq> Connected then
                 (s\<lparr>calls := updateCall callId
                       \<lparr>u_status = Some Connected, u_endTime = None, u_duration = None\<rparr>
                       (calls s)\<rparr>,
                  [\<lparr>ev_type = Connected, ev_callId = callId, ev_data = DChannel chan\<rparr>])
               else (s, []))
      | TSettled k message rnd now \<Rightarrow>
          (case resolved k message rnd now s of
             (r, s', evs) \<Rightarrow> (s'\<lparr>finished := finished s' @ [(k, r)]\<rparr>, evs)))"

text \<open>
  The socket's \<open>data\<close> handler for a chunk that completes the messages \<open>msgs\<close> (each with
  the identifier, random number and time its handler would draw): the loop starts the
  handler of every message; then the queued tasks run in order; then the events those
  tasks left to emit are emitted in order.
\<close>

fun startHandlers :: "(amiResponse \<times> string \<times> nat \<times> int) list \<Rightarrow> sys \<Rightarrow> sys \<times> task list" where
  "startHandlers [] s = (s, [])"
| "startHandlers ((message, gen, rnd, now) # msgs) s =
     (case handleAmiMessage message gen rnd now s of
        (s1, q1) \<Rightarrow> (case startHandlers msgs s1 of (s2, q2) \<Rightarrow> (s2, q1 @ q2)))"

fun runTasks :: "task list \<Rightarrow> sys \<Rightarrow> sys \<times> callEvent list" where
  "runTasks [] s = (s, [])"
| "runTasks (t # ts) s =
     (case runTask t s of
        (s1, e1) \<Rightarrow> (case runTasks ts s1 of (s2, e2) \<Rightarrow> (s2, e1 @ e2)))"

definition emitAll :: "callEvent list \<Rightarrow> sys \<Rightarrow> sys" where
  "emitAll evs s = foldl (\<lambda>s' ev. emitAsterisk ev s') s evs"

definition socketData :: "(amiResponse \<times> string \<times> nat \<times> int) list \<Rightarrow> sys \<Rightarrow> sys" where
  "socketData msgs s =
     (case startHandlers msgs s of
        (s1, q) \<Rightarrow> (case runTasks q s1 of (s2, evs) \<Rightarrow> emitAll evs s2))"

text \<open>
  The timer that \<open>sendAmiCommand\<close> arms for an action fires, 10 s after the command
  was written. Its closure holds the action identifier and the command name.
\<close>

definition actionTimeout :: "string \<Rightarrow> string \<Rightarrow> int \<Rightarrow> sys \<Rightarrow> sys" where
  "actionTimeout a command now s =
     (if (a, command, 10000) \<notin> set (actionTimeouts s) then s
      else
        let s0 = s\<lparr>actionTimeouts := remove1 (a, command, 10000) (actionTimeouts s)\<rparr>
        in (case pendingActions s0 a of
              None \<Rightarrow> s0
            | Some k \<Rightarrow>
                let s1 = s0\<lparr>pendingActions := (pendingActions s0)(a := None),
                            settled := settled s0 @ [(a, k, Inl (CommandTimeout command))]\<rparr>;
                    (r, s2) = rejected k (CommandTimeout command) now s1
                in s2\<lparr>finished := finished s2 @ [(k, r)]\<rparr>))"

subsection \<open>Connection and reconnection\<close>

definition connectToAsterisk :: "sys \<Rightarrow> sys" where
  "connectToAsterisk s = s\<lparr>amiSocket := True\<rparr>"

definition scheduleReconnect :: "sys \<Rightarrow> sys" where
  "scheduleReconnect s =
     (if reconnectTimer s \<noteq> None then s
      else
        let s1 = s\<lparr>connectionAttempts := connectionAttempts s + 1\<rparr>
        in if connectionAttempts s1 \<ge> maxRetries then s1
           else s1\<lparr>reconnectTimer := Some (min (1000 * 2 ^ connectionAttempts s1) 30000)\<rparr>)"

text \<open>
  The handlers that \<open>connectToAsterisk\<close> installs on the socket. They read and write the
  variables of the service only, so it does not matter which socket an event comes from.
  The promise that \<open>connectToAsterisk\<close> returns is not part of the state: its rejection
  is logged, and for the first connection it starts the interval whose simulated call is
  \<open>simulateIncomingCall\<close> with a random number.
\<close>

definition socketConnect :: "int \<Rightarrow> sys \<Rightarrow> sys" where
  "socketConnect now s =
     (case sendAmiCommand ''Login''
             [(''Username'', cfg_username s), (''Secret'', cfg_password s)] now KLogin s of
        (Rejected e, s') \<Rightarrow> s'\<lparr>isConnected := False\<rparr>
      | (Registered a, s') \<Rightarrow> s')"

definition socketError :: "sys \<Rightarrow> sys" where
  "socketError s = scheduleReconnect (s\<lparr>isConnected := False\<rparr>)"

definition socketClose :: "sys \<Rightarrow> sys" where
  "socketClose s = scheduleReconnect (s\<lparr>isConnected := False\<rparr>)"

definition reconnectTimerFires :: "sys \<Rightarrow> sys" where
  "reconnectTimerFires s =
     (case reconnectTimer s of
        None \<Rightarrow> s
      | Some delay \<Rightarrow> connectToAsterisk (s\<lparr>reconnectTimer := None\<rparr>))"

definition reconnect :: "sys \<Rightarrow> sys" where
  "reconnect s = connectToAsterisk (s\<lparr>connectionAttempts := 0, reconnectTimer := None\<rparr>)"

definition cleanup :: "sys \<Rightarrow> sys" where
  "cleanup s =
     s\<lparr>reconnectTimer := None, amiSocket := False, pendingActions := Map.empty,
       isConnected := False\<rparr>"

text \<open>
  The delay armed by each of \<open>n\<close> consecutive connection failures, the armed timer firing
  (and the connection being tried again) before the next failure.
\<close>

fun delays :: "nat \<Rightarrow> sys \<Rightarrow> nat option list" where
  "delays 0 s = []"
| "delays (Suc n) s =
     (let s1 = socketError s in reconnectTimer s1 # delays n (reconnectTimerFires s1))"

section \<open>Cloud provider service (twilio.service.ts)\<close>

record webhookReq =
  wh_CallSid :: "string option"
  wh_From :: string
  wh_To :: string
  wh_CallStatus :: "string option"
  wh_Direction :: "string option"

text \<open>\<open>dl_DialCallDuration\<close> is \<open>Number.parseInt(DialCallDuration)\<close>, \<open>None\<close> for \<open>NaN\<close>.\<close>

record dialReq =
  dl_CallSid :: "string option"
  dl_DialCallStatus :: "string option"
  dl_DialCallDuration :: "int option"

text \<open>\<open>mapTwilioStatusToCallStatus(CallStatus)\<close> for a field that may be missing.\<close>

definition mapCallStatus :: "string option \<Rightarrow> callStatus" where
  "mapCallStatus x = (case x of None \<Rightarrow> Failed | Some t \<Rightarrow> mapTwilioStatusToCallStatus t)"

definition handleIncomingWebhook :: "webhookReq \<Rightarrow> string \<Rightarrow> int \<Rightarrow> sys \<Rightarrow> string \<times> sys" where
  "handleIncomingWebhook req gen now s =
     (let callId = orElse (wh_CallSid req) gen;
          existingCall = getCall callId (calls s)
      in if existingCall = None
            \<and> (wh_CallStatus req = Some ''ringing'' \<or> wh_CallStatus req = Some ''in-progress'')
         then
           (let c = \<lparr>c_id = callId, c_from = wh_From req, c_to = wh_To req,
                      status = (if wh_Direction req = Some ''inbound'' then Incoming else Outgoing),
                      startTime = now, endTime = None, duration = None,
                      channel = Some (''Twilio/'' @ (case wh_CallSid req of
                                                       None \<Rightarrow> ''undefined'' | Some x \<Rightarrow> x)),
                      twilioCallSid = wh_CallSid req, provider = Twilio\<rparr>
            in (callId,
                emitTwilio
                  \<lparr>ev_type = (if wh_Direction req = Some ''inbound'' then Incoming else Outgoing),
                   ev_callId = c_id c, ev_data = DCall c\<rparr>
                  (s\<lparr>calls := createCall c (calls s)\<rparr>)))
         else
           (case existingCall of
              None \<Rightarrow> (callId, s)
            | Some ex \<Rightarrow>
                let updatedStatus = mapCallStatus (wh_CallStatus req)
                in if updatedStatus \<noteq> status ex then
                     (let final = (wh_CallStatus req = Some ''completed''
                                   \<or> wh_CallStatus req = Some ''busy''
                                   \<or> wh_CallStatus req = Some ''no-answer''
                                   \<or> wh_CallStatus req = Some ''failed'');
                          updateData =
                            \<lparr>u_status = Some updatedStatus,
                             u_endTime = (if final then Some now else None),
                             u_duration =
                               (if final then Some ((now - startTime ex) div 1000) else None)\<rparr>
                      in (callId,
                          emitTwilio
                            \<lparr>ev_type = (if updatedStatus = Connected then Connected else Ended),
                             ev_callId = callId,
                             ev_data = DStatus updatedStatus (wh_CallStatus req)\<rparr>
                            (s\<lparr>calls := updateCall callId updateData (calls s)\<rparr>)))
                   else (callId, s)))"

definition handleDialStatus :: "dialReq \<Rightarrow> int \<Rightarrow> sys \<Rightarrow> sys" where
  "handleDialStatus req now s =
     (case dl_CallSid req of
        None \<Rightarrow> s
      | Some sid \<Rightarrow>
          if sid = [] then s
          else (case getCall sid (calls s) of
                  None \<Rightarrow> s
                | Some c \<Rightarrow>
                    let updateData =
                          (if dl_DialCallStatus req = Some ''completed'' then
                             \<lparr>u_status = Some Ended, u_endTime = Some now,
                              u_duration = Some (case dl_DialCallDuration req of
                                                   None \<Rightarrow> 0 | Some d \<Rightarrow> d)\<rparr>
                           else if dl_DialCallStatus req = Some ''busy''
                                   \<or> dl_DialCallStatus req = Some ''no-answer'' then
                             \<lparr>u_status = Some Ended, u_endTime = Some now, u_duration = None\<rparr>
                           else \<lparr>u_status = None, u_endTime = None, u_duration = None\<rparr>)
                    in if u_status updateData \<noteq> None then
                         emitTwilio
                           \<lparr>ev_type = Ended, ev_callId = sid,
                            ev_data = DCause (dl_DialCallStatus req) (u_duration updateData)\<rparr>
                           (s\<lparr>calls := updateCall sid updateData (calls s)\<rparr>)
                       else s))"

text \<open>
  \<open>api\<close> is what the provider's SDK answers to \<open>client.calls.create\<close>: an error, or the
  \<open>sid\<close>, \<open>from\<close> and \<open>to\<close> of the call it created.
\<close>

definition makeOutgoingCall ::
  "string \<Rightarrow> string \<Rightarrow> error + (string \<times> string \<times> string) \<Rightarrow> int \<Rightarrow> sys
     \<Rightarrow> string outcome \<times> sys" where
  "makeOutgoingCall from_n to_n api now s =
     (if \<not> twilioClient s then (Threw TwilioNotInitialized, s)
      else (case api of
              Inl e \<Rightarrow> (Threw e, s)
            | Inr (sid, cfrom, cto) \<Rightarrow>
                let c = \<lparr>c_id = sid, c_from = cfrom, c_to = cto, status = Outgoing,
                          startTime = now, endTime = None, duration = None,
                          channel = Some (''Twilio/'' @ sid), twilioCallSid = Some sid,
                          provider = Twilio\<rparr>
                in (Done sid,
                    emitTwilio \<lparr>ev_type = Outgoing, ev_callId = sid, ev_data = DCall c\<rparr>
                      (s\<lparr>calls := createCall c (calls s)\<rparr>))))"

text \<open>\<open>api\<close> is the error of \<open>client.calls(sid).update\<close>, if it fails.\<close>

definition endTwilioCall :: "string \<Rightarrow> error option \<Rightarrow> int \<Rightarrow> sys \<Rightarrow> unit outcome \<times> sys" where
  "endTwilioCall callId api now s =
     (if \<not> twilioClient s then (Threw TwilioNotInitialized, s)
      else (case getCall callId (calls s) of
              None \<Rightarrow> (Done (), s)
            | Some c \<Rightarrow>
                if \<not> truthy (twilioCallSid c) then (Done (), s)
                else (case api of
                        Some e \<Rightarrow> (Threw e, s)
                      | None \<Rightarrow>
                          (Done (),
                           emitTwilio
                             \<lparr>ev_type = Ended, ev_callId = callId,
                              ev_data = DCause (Some ''hangup'') None\<rparr>
                             (s\<lparr>calls := updateCall callId
                                   \<lparr>u_status = Some Ended, u_endTime = Some now,
                                    u_duration = None\<rparr>
                                   (calls s)\<rparr>)))))"

section \<open>Unified call service (call.service.ts)\<close>

definition wrap :: "string \<Rightarrow> 'a outcome \<times> sys \<Rightarrow> 'a outcome \<times> sys" where
  "wrap what r =
     (case r of (Threw e, s) \<Rightarrow> (Threw (FailedTo what e), s) | (x, s) \<Rightarrow> (x, s))"

definition initiateCall ::
  "string \<Rightarrow> string \<Rightarrow> provider option \<Rightarrow> string \<Rightarrow> nat
     \<Rightarrow> error + (string \<times> string \<times> string) \<Rightarrow> int \<Rightarrow> sys \<Rightarrow> string outcome \<times> sys" where
  "initiateCall from_n to_n prov gen rnd api now s =
     wrap ''initiate call''
       (if determineProvider \<lparr>req_from = from_n, req_to = to_n, req_provider = prov\<rparr> = Twilio
        then makeOutgoingCall from_n to_n api now s
        else makeCall from_n to_n gen rnd now s)"

definition endCall :: "string \<Rightarrow> error option \<Rightarrow> int \<Rightarrow> sys \<Rightarrow> unit outcome \<times> sys" where
  "endCall callId api now s =
     wrap ''end call''
       (case getCall callId (calls s) of
          None \<Rightarrow> (Threw CallNotFound, s)
        | Some c \<Rightarrow>
            if provider c = Twilio then endTwilioCall callId api now s
            else hangupCall callId now s)"

definition svc_acceptCall :: "string \<Rightarrow> sys \<Rightarrow> unit outcome \<times> sys" where
  "svc_acceptCall callId s =
     wrap ''accept call''
       (case getCall callId (calls s) of
          None \<Rightarrow> (Threw CallNotFound, s)
        | Some c \<Rightarrow>
            if provider c = Asterisk then acceptCall callId s
            else (Threw TwilioHandledByWebhooks, s))"

definition svc_rejectCall :: "string \<Rightarrow> error option \<Rightarrow> int \<Rightarrow> sys \<Rightarrow> unit outcome \<times> sys" where
  "svc_rejectCall callId api now s =
     wrap ''reject call''
       (case getCall callId (calls s) of
          None \<Rightarrow> (Threw CallNotFound, s)
        | Some c \<Rightarrow>
            if provider c = Asterisk then rejectCall callId now s
            else endTwilioCall callId api now s)"

definition svc_simulateIncomingCall ::
  "string \<Rightarrow> provider \<Rightarrow> string \<Rightarrow> nat \<Rightarrow> int \<Rightarrow> sys \<Rightarrow> string outcome \<times> sys" where
  "svc_simulateIncomingCall fromNumber prov gen rnd now s =
     (if prov = Asterisk then simulateIncomingCall fromNumber ''1001'' gen rnd now s
      else (Threw TwilioSimulationUnsupported, s))"

definition svc_cleanup :: "sys \<Rightarrow> sys" where
  "svc_cleanup s = (cleanup s)\<lparr>calls := Map.empty\<rparr>"

section \<open>Runs of the system\<close>

text \<open>
  Everything that can happen to the running service: a call of an exported function, an
  event of the socket, a timer firing, a webhook. Each is handled to its end, or to the
  command it awaits, before the next one. \<open>SocketData msgs\<close> is a chunk of the socket's
  data that completes the messages \<open>msgs\<close>, each being what \<open>parseAmiMessage\<close> returns.
\<close>

datatype op =
    MakeCall string string string nat int
  | HangupCall string int
  | AcceptCall string
  | RejectCall string int
  | SimulateIncomingCall string string string nat int
  | SendAmiCommand string "(string \<times> string) list" int nat
  | Reconnect
  | Cleanup
  | SocketConnect int
  | SocketError
  | SocketClose
  | SocketData "(amiResponse \<times> string \<times> nat \<times> int) list"
  | ReconnectTimerFires
  | ActionTimeout string string int
  | IncomingWebhook webhookReq string int
  | DialStatus dialReq int
  | MakeOutgoingCall string string "error + (string \<times> string \<times> string)" int
  | EndTwilioCall string "error option" int
  | InitiateCall string string "provider option" string nat
      "error + (string \<times> string \<times> string)" int
  | EndCall string "error option" int
  | SvcAcceptCall string
  | SvcRejectCall string "error option" int
  | SvcSimulateIncomingCall string provider string nat int
  | SvcCleanup

fun step :: "op \<Rightarrow> sys \<Rightarrow> sys" where
  "step (MakeCall f t gen rnd now) s = snd (makeCall f t gen rnd now s)"
| "step (HangupCall i now) s = snd (hangupCall i now s)"
| "step (AcceptCall i) s = snd (acceptCall i s)"
| "step (RejectCall i now) s = snd (rejectCall i now s)"
| "step (SimulateIncomingCall f t gen rnd now) s = snd (simulateIncomingCall f t gen rnd now s)"
| "step (SendAmiCommand c ps now n) s = snd (sendAmiCommand c ps now (KCaller n) s)"
| "step Reconnect s = reconnect s"
| "step Cleanup s = cleanup s"
| "step (SocketConnect now) s = socketConnect now s"
| "step SocketError s = socketError s"
| "step SocketClose s = socketClose s"
| "step (SocketData msgs) s = socketData msgs s"
| "step ReconnectTimerFires s = reconnectTimerFires s"
| "step (ActionTimeout a c now) s = actionTimeout a c now s"
| "step (IncomingWebhook r gen now) s = snd (handleIncomingWebhook r gen now s)"
| "step (DialStatus r now) s = handleDialStatus r now s"
| "step (MakeOutgoingCall f t api now) s = snd (makeOutgoingCall f t api now s)"
| "step (EndTwilioCall i api now) s = snd (endTwilioCall i api now s)"
| "step (InitiateCall f t p gen rnd api now) s = snd (initiateCall f t p gen rnd api now s)"
| "step (EndCall i api now) s = snd (endCall i api now s)"
| "step (SvcAcceptCall i) s = snd (svc_acceptCall i s)"
| "step (SvcRejectCall i api now) s = snd (svc_rejectCall i api now s)"
| "step (SvcSimulateIncomingCall f p gen rnd now) s = snd (svc_simulateIncomingCall f p gen rnd now s)"
| "step SvcCleanup s = svc_cleanup s"

definition run :: "op list \<Rightarrow> sys \<Rightarrow> sys" where
  "run ops s = foldl (\<lambda>s' o'. step o' s') s ops"

text \<open>The timer armed by the \<open>k\<close>-th consecutive failure, as \<open>scheduleReconnect\<close> computes it.\<close>

definition armed :: "nat \<Rightarrow> nat option" where
  "armed k = (if k < maxRetries then Some (min (1000 * 2 ^ k) 30000) else None)"

text \<open>A client that is not connected, awaits nothing and has written nothing.\<close>

definition quiet :: "sys \<Rightarrow> bool" where
  "quiet s =
     (\<not> isConnected s \<and> pendingActions s = Map.empty \<and> written s = []
      \<and> connectEmitted s = 0)"

section \<open>Frames as lines\<close>

text \<open>The lines of a frame: \<open>frame.split('\r\n')\<close>.\<close>

fun lines_of :: "string \<Rightarrow> string list" where
  "lines_of [] = [[]]"
| "lines_of (c # cs) =
     (if c = CHR 0x0D \<and> take 1 cs = [CHR 0x0A] then [] # lines_of (drop 1 cs)
      else (case lines_of cs of [] \<Rightarrow> [[c]] | l # ls \<Rightarrow> (c # l) # ls))"

definition actionIdLines :: "string \<Rightarrow> string list" where
  "actionIdLines frame = filter (\<lambda>l. startsWith l ''ActionID: '') (lines_of frame)"

subsection \<open>Concrete states used below\<close>

definition connected_state :: sys where
  "connected_state = (initial ''admin'' ''asterisk'' False)\<lparr>isConnected := True\<rparr>"

definition ended_call :: call where
  "ended_call =
     \<lparr>c_id = ''c1'', c_from = ''2000'', c_to = ''1001'', status = Ended, startTime = 1000,
      endTime = Some 5000, duration = Some 4, channel = Some ''SIP/simulated-7'',
      twilioCallSid = None, provider = Asterisk\<rparr>"

definition bare_call :: call where
  "bare_call =
     \<lparr>c_id = ''c2'', c_from = ''2000'', c_to = ''1001'', status = Connected, startTime = 1000,
      endTime = None, duration = None, channel = None,
      twilioCallSid = None, provider = Asterisk\<rparr>"

definition bare_state :: sys where
  "bare_state = (initial ''admin'' ''asterisk'' False)\<lparr>calls := [''c2'' \<mapsto> bare_call]\<rparr>"

definition answered_event :: amiResponse where
  "answered_event =
     [''Event'' \<mapsto> ''Newstate'', ''ChannelState'' \<mapsto> ''6'', ''Uniqueid'' \<mapsto> ''c3'']"

definition resp1 :: amiResponse where
  "resp1 = [''ActionID'' \<mapsto> ''action_1_1700'', ''Response'' \<mapsto> ''Success'']"

definition resp2 :: amiResponse where
  "resp2 = [''ActionID'' \<mapsto> ''action_2_1705'', ''Response'' \<mapsto> ''Error'']"

definition ringing_req :: webhookReq where
  "ringing_req =
     \<lparr>wh_CallSid = Some ''CA1'', wh_From = ''+15551234567'', wh_To = ''+15557654321'',
      wh_CallStatus = Some ''ringing'', wh_Direction = Some ''inbound''\<rparr>"

definition twilio_call :: call where
  "twilio_call =
     \<lparr>c_id = ''CA1'', c_from = ''+15551234567'', c_to = ''+15557654321'', status = Incoming,
      startTime = 1000, endTime = None, duration = None, channel = Some ''Twilio/CA1'',
      twilioCallSid = Some ''CA1'', provider = Twilio\<rparr>"

lemmas eval_defs =
  run_def simulateIncomingCall_def hangupCall_def acceptCall_def rejectCall_def initial_def
  createCall_def getCall_def updateCall_def mergeCall_def emitAsterisk_def emitTwilio_def
  finishHangup_def finishReject_def finishMakeCall_def show_nat.simps digit_def Let_def
  truthy_def orElse_def

lemmas chunk_defs =
  socketData_def handleAmiMessage_def handleAmiEvent_def handleCallConnected_def
  handleCallHangup_def handleIncomingCall_def runTask_def emitAll_def

section \<open>Provider router\<close>

lemma startsWith_plus: "startsWith t ''+'' \<longleftrightarrow> (\<exists>rest. t = CHR ''+'' # rest)"
  by (cases t) (auto simp: startsWith_def)

text \<open>
  C5. The router is a total function of the request. A request that names a backend gets
  that backend. Otherwise an address that begins with \<open>+\<close> or has more than 6 characters
  goes to the cloud backend (Twilio) and every other address to the PBX (Asterisk). The
  three examples of the specification evaluate as stated.
\<close>

theorem determineProvider_routes:
  "determineProvider \<lparr>req_from = f, req_to = t, req_provider = Some p\<rparr> = p
   \<and> determineProvider \<lparr>req_from = f, req_to = t, req_provider = None\<rparr>
       = (if (\<exists>rest. t = CHR ''+'' # rest) \<or> 6 < length t then Twilio else Asterisk)
   \<and> determineProvider \<lparr>req_from = f, req_to = ''+15551234567'', req_provider = None\<rparr> = Twilio
   \<and> determineProvider \<lparr>req_from = f, req_to = ''2000'', req_provider = None\<rparr> = Asterisk
   \<and> determineProvider \<lparr>req_from = f, req_to = ''2000'', req_provider = Some Twilio\<rparr> = Twilio"
  by (simp add: determineProvider_def startsWith_plus)

theorem determineProvider_routes_witness:
  "determineProvider \<lparr>req_from = ''1001'', req_to = ''1234567'', req_provider = None\<rparr> = Twilio
   \<and> determineProvider \<lparr>req_from = ''1001'', req_to = ''123456'', req_provider = None\<rparr> = Asterisk
   \<and> determineProvider \<lparr>req_from = ''1001'', req_to = ''+1'', req_provider = Some Asterisk\<rparr>
       = Asterisk"
  using determineProvider_routes [of "''1001''" "''1234567''" Asterisk]
    determineProvider_routes [of "''1001''" "''123456''" Asterisk]
    determineProvider_routes [of "''1001''" "''+1''" Asterisk]
  by simp

section \<open>Cloud status lookup\<close>

text \<open>
  C4 as stated fails: the lookup sends the provider's failure statuses \<open>busy\<close>,
  \<open>no-answer\<close> and \<open>failed\<close> to \<open>ended\<close>, not to \<open>failed\<close>.
\<close>

theorem mapTwilioStatus_failure_counterexample:
  "mapTwilioStatusToCallStatus ''busy'' \<noteq> Failed
   \<and> mapTwilioStatusToCallStatus ''no-answer'' \<noteq> Failed
   \<and> mapTwilioStatusToCallStatus ''failed'' \<noteq> Failed"
  by (simp add: mapTwilioStatusToCallStatus_def)

text \<open>
  C4, amended. The lookup is this table: \<open>queued\<close> and \<open>ringing\<close> give \<open>incoming\<close>;
  \<open>in-progress\<close> gives \<open>connected\<close>; \<open>completed\<close>, \<open>busy\<close>, \<open>no-answer\<close>, \<open>failed\<close> and
  \<open>canceled\<close> give \<open>ended\<close>; every other string gives \<open>failed\<close>.
\<close>

theorem mapTwilioStatus_table:
  "mapTwilioStatusToCallStatus t =
     (if t \<in> {''queued'', ''ringing''} then Incoming
      else if t = ''in-progress'' then Connected
      else if t \<in> {''completed'', ''busy'', ''no-answer'', ''failed'', ''canceled''} then Ended
      else Failed)"
  by (simp add: mapTwilioStatusToCallStatus_def)

theorem mapTwilioStatus_table_witness:
  "mapTwilioStatusToCallStatus ''busy'' = Ended
   \<and> mapTwilioStatusToCallStatus ''initiated'' = Failed"
  using mapTwilioStatus_table [of "''busy''"] mapTwilioStatus_table [of "''initiated''"]
  by simp

section \<open>Transitions from a state that does not allow them\<close>

text \<open>
  C1 as stated fails for \<open>hangupCall\<close>: it does not look at the status. A call is
  simulated at 1000 ms and hung up at 5000 ms; hanging it up again at 9000 ms returns
  normally and overwrites \<open>endTime\<close> and \<open>duration\<close> of the ended record.
\<close>

theorem hangupCall_ended_counterexample:
  "calls (run [SimulateIncomingCall ''2000'' ''1001'' ''c1'' 7 1000, HangupCall ''c1'' 5000]
        (initial ''admin'' ''asterisk'' False)) ''c1'' = Some ended_call
   \<and> status ended_call = Ended
   \<and> fst (hangupCall ''c1'' 9000
        (run [SimulateIncomingCall ''2000'' ''1001'' ''c1'' 7 1000, HangupCall ''c1'' 5000]
           (initial ''admin'' ''asterisk'' False))) = Done ()
   \<and> calls (snd (hangupCall ''c1'' 9000
        (run [SimulateIncomingCall ''2000'' ''1001'' ''c1'' 7 1000, HangupCall ''c1'' 5000]
           (initial ''admin'' ''asterisk'' False)))) ''c1''
       = Some (ended_call\<lparr>endTime := Some 9000, duration := Some 8\<rparr>)"
  by (simp add: eval_defs ended_call_def)

text \<open>
  C1, amended. For a stored call whose status is not \<open>incoming\<close>, \<open>acceptCall\<close> and
  \<open>rejectCall\<close> throw "Call is not in incoming state" and leave the whole state, the stored
  record included, as it was. \<open>hangupCall\<close> throws, leaving the state as it was, for a
  stored call that has no channel.
\<close>

theorem invalid_transition_rejected:
  assumes "calls s i = Some c"
  shows "(status c \<noteq> Incoming \<longrightarrow>
            acceptCall i s = (Threw NotIncoming, s) \<and> rejectCall i now s = (Threw NotIncoming, s))
         \<and> (\<not> truthy (channel c) \<longrightarrow> hangupCall i now s = (Threw CallNotFoundOrNoChannel, s))"
  using assms
  by (auto simp: acceptCall_def rejectCall_def hangupCall_def getCall_def truthy_def
      split: option.splits)

theorem invalid_transition_rejected_witness:
  "calls bare_state ''c2'' = Some bare_call \<and> status bare_call \<noteq> Incoming
   \<and> \<not> truthy (channel bare_call)
   \<and> acceptCall ''c2'' bare_state = (Threw NotIncoming, bare_state)
   \<and> rejectCall ''c2'' 7000 bare_state = (Threw NotIncoming, bare_state)
   \<and> hangupCall ''c2'' 7000 bare_state = (Threw CallNotFoundOrNoChannel, bare_state)"
proof -
  have h: "calls bare_state ''c2'' = Some bare_call"
    by (simp add: bare_state_def)
  have c: "status bare_call \<noteq> Incoming" "\<not> truthy (channel bare_call)"
    by (simp_all add: bare_call_def truthy_def)
  show ?thesis
    using invalid_transition_rejected [OF h, of 7000] h c by simp
qed

section \<open>Reconnection\<close>

lemma failure_round:
  assumes "reconnectTimer s = None"
  shows "reconnectTimer (socketError s) = armed (connectionAttempts s + 1)"
    and "reconnectTimer (reconnectTimerFires (socketError s)) = None"
    and "connectionAttempts (reconnectTimerFires (socketError s)) = connectionAttempts s + 1"
  using assms
  by (simp_all add: socketError_def scheduleReconnect_def Let_def armed_def
      reconnectTimerFires_def connectToAsterisk_def split: option.splits)

lemma delays_from:
  "reconnectTimer s = None \<Longrightarrow>
   delays n s = map (\<lambda>k. armed (connectionAttempts s + k)) [1..<Suc n]"
proof (induction n arbitrary: s)
  case 0
  show ?case by simp
next
  case (Suc n)
  let ?s' = "reconnectTimerFires (socketError s)"
  have "delays (Suc n) s = armed (connectionAttempts s + 1) # delays n ?s'"
    using failure_round(1) [OF Suc.prems] by (simp add: Let_def)
  also have "delays n ?s' = map (\<lambda>k. armed (connectionAttempts s + 1 + k)) [1..<Suc n]"
    using Suc.IH [OF failure_round(2) [OF Suc.prems]] failure_round(3) [OF Suc.prems] by simp
  also have "\<dots> = map (\<lambda>k. armed (connectionAttempts s + k)) (map Suc [1..<Suc n])"
    by (simp add: comp_def del: upt_Suc)
  also have "map Suc [1..<Suc n] = [2..<Suc (Suc n)]"
    using map_Suc_upt [of 1 "Suc n"] by (simp add: numeral_2_eq_2 del: upt_Suc)
  finally show ?case
    by (simp add: upt_conv_Cons [of "Suc 0"] numeral_2_eq_2 del: upt_Suc delays.simps)
qed

lemma delays_fresh:
  assumes "reconnectTimer s = None" and "connectionAttempts s = 0"
  shows "delays n s =
     map (\<lambda>k. if k < 5 then Some (min (1000 * 2 ^ k) 30000) else None) [1..<Suc n]"
  using delays_from [OF assms(1)] assms(2) by (simp add: armed_def maxRetries_def)

text \<open>
  C3 as stated fails: from the fresh state the first delay is 2 s, not 1 s, and the
  sequence is not 1, 2, 4, 8, 16, 30, 30 s.
\<close>

theorem reconnect_delays_counterexample:
  "delays 7 (initial ''admin'' ''asterisk'' False)
     \<noteq> map Some [1000, 2000, 4000, 8000, 16000, 30000, 30000]"
  using delays_fresh [of "initial ''admin'' ''asterisk'' False" 7]
  by (simp add: initial_def upt_rec)

text \<open>
  C3, amended. With no timer armed and the attempt counter at 0, the \<open>k\<close>-th consecutive
  failure (\<open>k = 1, 2, ...\<close>) arms a reconnect after \<open>min (1000 * 2 ^ k) 30000\<close> ms while
  \<open>k < 5\<close>, that is 2 s, 4 s, 8 s and 16 s, and arms nothing from the fifth failure on.
  The manual \<open>reconnect\<close> sets the counter to 0, clears the timer and connects at once,
  and the same sequence starts again.
\<close>

theorem reconnect_delays:
  assumes "reconnectTimer s = None" and "connectionAttempts s = 0"
  shows "delays n s =
           map (\<lambda>k. if k < 5 then Some (min (1000 * 2 ^ k) 30000) else None) [1..<Suc n]
         \<and> delays 7 s = [Some 2000, Some 4000, Some 8000, Some 16000, None, None, None]
         \<and> connectionAttempts (reconnect s') = 0 \<and> reconnectTimer (reconnect s') = None
         \<and> amiSocket (reconnect s')
         \<and> delays 7 (reconnect s')
             = [Some 2000, Some 4000, Some 8000, Some 16000, None, None, None]"
proof -
  have r: "reconnectTimer (reconnect s') = None" "connectionAttempts (reconnect s') = 0"
    "amiSocket (reconnect s')"
    by (simp_all add: reconnect_def connectToAsterisk_def)
  have "delays 7 s = [Some 2000, Some 4000, Some 8000, Some 16000, None, None, None]"
    unfolding delays_fresh [OF assms] by (simp add: upt_rec)
  moreover have
    "delays 7 (reconnect s') = [Some 2000, Some 4000, Some 8000, Some 16000, None, None, None]"
    unfolding delays_fresh [OF r(1,2)] by (simp add: upt_rec)
  ultimately show ?thesis
    using delays_fresh [OF assms, of n] r by simp
qed

theorem reconnect_delays_witness:
  "reconnectTimer (initial ''admin'' ''asterisk'' False) = None
   \<and> connectionAttempts (initial ''admin'' ''asterisk'' False) = 0
   \<and> delays 7 (initial ''admin'' ''asterisk'' False)
       = [Some 2000, Some 4000, Some 8000, Some 16000, None, None, None]
   \<and> connectionAttempts (reconnect (socketError (initial ''admin'' ''asterisk'' False))) = 0"
proof -
  have h: "reconnectTimer (initial ''admin'' ''asterisk'' False) = None"
    "connectionAttempts (initial ''admin'' ''asterisk'' False) = 0"
    by (simp_all add: initial_def)
  show ?thesis
    using reconnect_delays [OF h, of 0 "socketError (initial ''admin'' ''asterisk'' False)"] h
    by simp
qed

section \<open>Repeated status updates\<close>

text \<open>
  Updates that are handled one after the other are idempotent: a cloud status update that
  maps to the stored status changes nothing, and so does an answered event of the PBX that
  comes in a chunk of its own for a call already connected.
\<close>

lemma webhook_idempotent:
  assumes "wh_CallSid req = Some sid" and "sid \<noteq> []" and "calls s sid = Some c"
  shows "(mapCallStatus (wh_CallStatus req) = status c \<longrightarrow>
            handleIncomingWebhook req gen now s = (sid, s))
       \<and> snd (handleIncomingWebhook req gen2 now2 (snd (handleIncomingWebhook req gen now s)))
           = snd (handleIncomingWebhook req gen now s)
       \<and> twilioEvents (snd (handleIncomingWebhook req gen now s))
           = twilioEvents s @
             (if mapCallStatus (wh_CallStatus req) = status c then []
              else [\<lparr>ev_type = (if mapCallStatus (wh_CallStatus req) = Connected
                                 then Connected else Ended),
                     ev_callId = sid,
                     ev_data = DStatus (mapCallStatus (wh_CallStatus req)) (wh_CallStatus req)\<rparr>])"
  using assms
  by (simp add: handleIncomingWebhook_def getCall_def orElse_def Let_def updateCall_def
      mergeCall_def emitTwilio_def)

lemma answered_separate_chunks:
  assumes "event ''Event'' = Some ''Newstate''" and "event ''ChannelState'' = Some ''6''"
    and "event ''Uniqueid'' = Some i" and "i \<noteq> []" and "event ''ActionID'' = None"
    and "calls s i = Some c"
  shows "(status c = Connected \<longrightarrow> socketData [(event, gen, rnd, now)] s = s)
       \<and> socketData [(event, gen2, rnd2, now2)] (socketData [(event, gen, rnd, now)] s)
           = socketData [(event, gen, rnd, now)] s
       \<and> asteriskEvents (socketData [(event, gen, rnd, now)] s)
           = asteriskEvents s @
             (if status c = Connected then []
              else [\<lparr>ev_type = Connected, ev_callId = i,
                     ev_data = DChannel (event ''Channel'')\<rparr>])"
  using assms
  by (simp add: chunk_defs truthy_def getCall_def updateCall_def mergeCall_def emitAsterisk_def)

text \<open>
  C6. The code breaks this guarantee for the PBX answered event. When two answered events for
  a stored incoming call arrive in one chunk of socket data, both handlers read the record
  before either updates it, both find it not connected, and two \<open>connected\<close> notifications
  are emitted. Delivered in two chunks, the same two events emit one.
\<close>

theorem answered_twice_in_one_chunk:
  "map (\<lambda>e. (ev_type e, ev_callId e))
     (asteriskEvents
        (run [SimulateIncomingCall ''2000'' ''1001'' ''c3'' 1 1000,
              SocketData [(answered_event, ''g1'', 0, 2000), (answered_event, ''g2'', 0, 2000)]]
           (initial ''admin'' ''asterisk'' False)))
     = [(Incoming, ''c3''), (Connected, ''c3''), (Connected, ''c3'')]
   \<and> map (\<lambda>e. (ev_type e, ev_callId e))
     (asteriskEvents
        (run [SimulateIncomingCall ''2000'' ''1001'' ''c3'' 1 1000,
              SocketData [(answered_event, ''g1'', 0, 2000)],
              SocketData [(answered_event, ''g2'', 0, 2000)]]
           (initial ''admin'' ''asterisk'' False)))
     = [(Incoming, ''c3''), (Connected, ''c3'')]"
  by (simp add: eval_defs chunk_defs answered_event_def)


section \<open>Command frames\<close>

lemma amiMessage_lines:
  "amiMessage command a params =
     concat (map (\<lambda>l. l @ CRLF)
       ([''Action: '' @ command, ''ActionID: '' @ a] @ map (\<lambda>(k, v). k @ '': '' @ v) params))
     @ CRLF"
proof -
  have "foldl (\<lambda>message (key, val). message @ key @ '': '' @ val @ CRLF) acc params
        = acc @ concat (map (\<lambda>l. l @ CRLF) (map (\<lambda>(k, v). k @ '': '' @ v) params))" for acc
    by (induction params arbitrary: acc) auto
  then show ?thesis by (simp add: amiMessage_def)
qed

lemma lines_of_line:
  "CHR 0x0D \<notin> set l \<Longrightarrow> lines_of (l @ CRLF @ rest) = l # lines_of rest"
  by (induction l) (auto simp: CRLF_def)

lemma lines_of_concat:
  "\<forall>l\<in>set ls. CHR 0x0D \<notin> set l \<Longrightarrow>
   lines_of (concat (map (\<lambda>l. l @ CRLF) ls) @ rest) = ls @ lines_of rest"
  by (induction ls) (simp_all add: lines_of_line)

lemma lines_of_CRLF: "lines_of CRLF = [[], []]"
  by (simp add: CRLF_def)

lemma digit_mem: "d < 10 \<Longrightarrow> digit d \<in> set ''0123456789''"
  unfolding digit_def by (intro nth_mem) simp

lemma show_nat_digits: "set (show_nat n) \<subseteq> set ''0123456789''"
proof (induction n rule: show_nat.induct)
  case (1 n)
  show ?case
  proof (cases "n < 10")
    case True
    then show ?thesis using digit_mem [of n] by (simp add: show_nat.simps)
  next
    case False
    then show ?thesis
      using 1 digit_mem [of "n mod 10"] by (subst show_nat.simps) simp
  qed
qed

lemma show_nat_no_underscore: "CHR ''_'' \<notin> set (show_nat n)"
  using show_nat_digits [of n] by auto

lemma show_nat_no_CR: "CHR 0x0D \<notin> set (show_nat n)"
  using show_nat_digits [of n] by auto

lemma generateActionId_no_CR: "CHR 0x0D \<notin> set (generateActionId n t)"
  by (simp add: generateActionId_def show_int_def show_nat_no_CR)

lemma action_line_not_actionid: "\<not> startsWith (''Action: '' @ command) ''ActionID: ''"
  by (simp add: startsWith_def)

lemma actionid_line: "startsWith (''ActionID: '' @ a) ''ActionID: ''"
  by (simp add: startsWith_def)

lemma frame_lines:
  assumes "CHR 0x0D \<notin> set command"
    and "CHR 0x0D \<notin> set a"
    and "\<forall>(key, v)\<in>set params. CHR 0x0D \<notin> set key \<and> CHR 0x0D \<notin> set v"
  shows "lines_of (amiMessage command a params) =
     [''Action: '' @ command, ''ActionID: '' @ a] @ map (\<lambda>(k, v). k @ '': '' @ v) params @ [[], []]"
proof -
  have "\<forall>l\<in>set ([''Action: '' @ command, ''ActionID: '' @ a]
            @ map (\<lambda>(k, v). k @ '': '' @ v) params). CHR 0x0D \<notin> set l"
    using assms by auto
  from lines_of_concat [OF this, of CRLF] show ?thesis
    by (simp add: amiMessage_lines lines_of_CRLF)
qed

text \<open>
  What \<open>sendAmiCommand\<close> writes on a connected client: the \<open>Action\<close> line, the \<open>ActionID\<close>
  line with the identifier it registers, then one line per parameter.
\<close>

lemma sendAmiCommand_frame:
  assumes "isConnected s" and "amiSocket s"
    and "CHR 0x0D \<notin> set command"
    and "\<forall>(key, v)\<in>set params. CHR 0x0D \<notin> set key \<and> CHR 0x0D \<notin> set v"
  shows "fst (sendAmiCommand command params now k s)
           = Registered (generateActionId (actionId s + 1) now)
       \<and> pendingActions (snd (sendAmiCommand command params now k s))
           (generateActionId (actionId s + 1) now) = Some k
       \<and> written (snd (sendAmiCommand command params now k s))
           = written s @ [amiMessage command (generateActionId (actionId s + 1) now) params]
       \<and> lines_of (amiMessage command (generateActionId (actionId s + 1) now) params)
           = [''Action: '' @ command, ''ActionID: '' @ generateActionId (actionId s + 1) now]
             @ map (\<lambda>(key, v). key @ '': '' @ v) params @ [[], []]
       \<and> actionIdLines (amiMessage command (generateActionId (actionId s + 1) now) params)
           = (''ActionID: '' @ generateActionId (actionId s + 1) now)
             # filter (\<lambda>l. startsWith l ''ActionID: '') (map (\<lambda>(key, v). key @ '': '' @ v) params)"
proof -
  let ?a = "generateActionId (actionId s + 1) now"
  have l: "lines_of (amiMessage command ?a params)
           = [''Action: '' @ command, ''ActionID: '' @ ?a]
             @ map (\<lambda>(key, v). key @ '': '' @ v) params @ [[], []]"
    using frame_lines [OF assms(3) generateActionId_no_CR assms(4)] .
  have f: "actionIdLines (amiMessage command ?a params)
           = (''ActionID: '' @ ?a)
             # filter (\<lambda>l. startsWith l ''ActionID: '') (map (\<lambda>(key, v). key @ '': '' @ v) params)"
    unfolding actionIdLines_def l
    using action_line_not_actionid [of command] actionid_line [of ?a]
    by (simp add: startsWith_def)
  show ?thesis
    using assms(1,2) l f by (simp add: sendAmiCommand_def Let_def)
qed

lemma makeCall_frame:
  assumes "isConnected s" and "amiSocket s"
  shows "written (snd (makeCall from_n to_n gen rnd now s))
         = written s @ [amiMessage ''Originate'' (generateActionId (actionId s + 1) now)
                          (originateParams from_n to_n gen)]"
  using assms by (simp add: makeCall_def sendAmiCommand_def Let_def)


section \<open>Correlation of responses\<close>

lemma show_nat_nonempty: "show_nat n \<noteq> []"
  by (subst show_nat.simps) simp

lemma digit_inj: "d < 10 \<Longrightarrow> e < 10 \<Longrightarrow> digit d = digit e \<Longrightarrow> d = e"
proof -
  assume d: "d < 10" and e: "e < 10" and eq: "digit d = digit e"
  have dist: "distinct ''0123456789''" by simp
  with d e eq show ?thesis
    unfolding digit_def using nth_eq_iff_index_eq [OF dist, of d e] by simp
qed

lemma show_nat_inj: "show_nat n = show_nat m \<Longrightarrow> n = m"
proof (induction n arbitrary: m rule: show_nat.induct)
  case (1 n)
  show ?case
  proof (cases "n < 10")
    case n: True
    show ?thesis
    proof (cases "m < 10")
      case True
      with n 1(2) show ?thesis
        using digit_inj [of n m] by (simp add: show_nat.simps)
    next
      case False
      with n 1(2) show_nat_nonempty [of "m div 10"] show ?thesis
        by (simp add: show_nat.simps [of n] show_nat.simps [of m])
    qed
  next
    case n: False
    show ?thesis
    proof (cases "m < 10")
      case True
      with n 1(2) show_nat_nonempty [of "n div 10"] show ?thesis
        by (simp add: show_nat.simps [of n] show_nat.simps [of m])
    next
      case False
      with n 1(2) have a: "show_nat (n div 10) = show_nat (m div 10)"
        and b: "digit (n mod 10) = digit (m mod 10)"
        by (simp_all add: show_nat.simps [of n] show_nat.simps [of m])
      have "n div 10 = m div 10" using 1(1) [OF n a] .
      moreover have "n mod 10 = m mod 10" using digit_inj [OF _ _ b] by simp
      ultimately show ?thesis by (metis div_mult_mod_eq)
    qed
  qed
qed

lemma generateActionId_inj:
  assumes "generateActionId n t = generateActionId m u"
  shows "n = m"
proof -
  let ?P = "\<lambda>c. c \<noteq> CHR ''_''"
  from assms have "show_nat n @ CHR ''_'' # show_int t = show_nat m @ CHR ''_'' # show_int u"
    by (simp add: generateActionId_def)
  then have "takeWhile ?P (show_nat n @ CHR ''_'' # show_int t)
           = takeWhile ?P (show_nat m @ CHR ''_'' # show_int u)" by simp
  moreover have "takeWhile ?P (show_nat k @ CHR ''_'' # r) = show_nat k" for k r
    using show_nat_no_underscore [of k] by (auto simp: takeWhile_tail)
  ultimately have "show_nat n = show_nat m" by simp
  then show ?thesis by (rule show_nat_inj)
qed

lemma generateActionId_nonempty: "generateActionId n t \<noteq> []"
  by (simp add: generateActionId_def)

text \<open>What settling a promise leaves alone.\<close>

lemma finish_fields:
  "pendingActions (finishMakeCall i f t r n s) = pendingActions s"
  "settled (finishMakeCall i f t r n s) = settled s"
  "finished (finishMakeCall i f t r n s) = finished s"
  "actionId (finishMakeCall i f t r n s) = actionId s"
  "pendingActions (finishHangup i c n s) = pendingActions s"
  "settled (finishHangup i c n s) = settled s"
  "finished (finishHangup i c n s) = finished s"
  "actionId (finishHangup i c n s) = actionId s"
  "pendingActions (finishReject i n s) = pendingActions s"
  "settled (finishReject i n s) = settled s"
  "finished (finishReject i n s) = finished s"
  "actionId (finishReject i n s) = actionId s"
  by (simp_all add: finishMakeCall_def finishHangup_def finishReject_def emitAsterisk_def Let_def)

lemma rejected_fields:
  "pendingActions (snd (rejected k e n s)) = pendingActions s"
  "settled (snd (rejected k e n s)) = settled s"
  "finished (snd (rejected k e n s)) = finished s"
  "actionId (snd (rejected k e n s)) = actionId s"
  by (cases k; simp add: rejected_def finish_fields)+

lemma resolved_fields:
  "settled (fst (snd (resolved k m r n s))) = settled s"
  "finished (fst (snd (resolved k m r n s))) = finished s"
  "a \<noteq> generateActionId (actionId s + 1) n \<Longrightarrow>
     pendingActions (fst (snd (resolved k m r n s))) a = pendingActions s a"
  "actionId s \<le> actionId (fst (snd (resolved k m r n s)))"
  by (cases k; simp add: resolved_def setupEventListeners_def sendAmiCommand_def Let_def)+

lemma emitAll_fields:
  "settled (emitAll evs s) = settled s"
  "finished (emitAll evs s) = finished s"
  "pendingActions (emitAll evs s) = pendingActions s"
  "actionId (emitAll evs s) = actionId s"
  "isConnected (emitAll evs s) = isConnected s"
  "written (emitAll evs s) = written s"
  "connectEmitted (emitAll evs s) = connectEmitted s"
  "actionTimeouts (emitAll evs s) = actionTimeouts s"
  unfolding emitAll_def
  by (induction evs arbitrary: s; simp add: emitAsterisk_def)+

lemma sendAmiCommand_connected:
  assumes "isConnected s" and "amiSocket s"
  shows "sendAmiCommand command params now k s =
     (Registered (generateActionId (actionId s + 1) now),
      s\<lparr>actionId := actionId s + 1,
        pendingActions := (pendingActions s)(generateActionId (actionId s + 1) now \<mapsto> k),
        actionTimeouts := actionTimeouts s @ [(generateActionId (actionId s + 1) now, command, 10000)],
        written := written s
           @ [amiMessage command (generateActionId (actionId s + 1) now) params]\<rparr>)"
  using assms by (simp add: sendAmiCommand_def Let_def)

lemma actionTimeout_pending:
  assumes "(a, command, 10000) \<in> set (actionTimeouts s)" and "pendingActions s a = Some k"
  shows "settled (actionTimeout a command now s) = settled s @ [(a, k, Inl (CommandTimeout command))]"
    and "finished (actionTimeout a command now s)
           = finished s @ [(k, fst (rejected k (CommandTimeout command) now
                (s\<lparr>actionTimeouts := remove1 (a, command, 10000) (actionTimeouts s),
                   pendingActions := (pendingActions s)(a := None),
                   settled := settled s @ [(a, k, Inl (CommandTimeout command))]\<rparr>)))]"
    and "pendingActions (actionTimeout a command now s) = (pendingActions s)(a := None)"
    and "actionId (actionTimeout a command now s) = actionId s"
  using assms
  by (simp_all add: actionTimeout_def Let_def split_def rejected_fields)

lemma rejected_result:
  "fst (rejected k e n s) = (if k = KEvents \<or> (\<exists>i. k = KReject i) then Inr [] else Inl e)"
  by (cases k) (simp_all add: rejected_def)

lemma response_chunk:
  assumes "message ''ActionID'' = Some a" and "a \<noteq> []" and "pendingActions s a = Some k"
  shows "socketData [(message, gen, rnd, now)] s =
     emitAll (snd (snd (resolved k message rnd now
                (s\<lparr>pendingActions := (pendingActions s)(a := None),
                   settled := settled s @ [(a, k, Inr message)]\<rparr>))))
       ((fst (snd (resolved k message rnd now
                (s\<lparr>pendingActions := (pendingActions s)(a := None),
                   settled := settled s @ [(a, k, Inr message)]\<rparr>))))
          \<lparr>finished := finished (fst (snd (resolved k message rnd now
                (s\<lparr>pendingActions := (pendingActions s)(a := None),
                   settled := settled s @ [(a, k, Inr message)]\<rparr>))))
              @ [(k, fst (resolved k message rnd now
                (s\<lparr>pendingActions := (pendingActions s)(a := None),
                   settled := settled s @ [(a, k, Inr message)]\<rparr>)))]\<rparr>)"
  using assms
  by (simp add: socketData_def handleAmiMessage_def runTask_def truthy_def orElse_def Let_def
      split_def)

lemma response_chunk_matched:
  assumes "message ''ActionID'' = Some a" and "a \<noteq> []" and "pendingActions s a = Some k"
  shows "settled (socketData [(message, gen, rnd, now)] s) = settled s @ [(a, k, Inr message)]"
    and "a \<noteq> generateActionId (actionId s + 1) now \<Longrightarrow>
           pendingActions (socketData [(message, gen, rnd, now)] s) a = None"
    and "b \<noteq> a \<Longrightarrow> b \<noteq> generateActionId (actionId s + 1) now \<Longrightarrow>
           pendingActions (socketData [(message, gen, rnd, now)] s) b = pendingActions s b"
  unfolding response_chunk [where message = message and s = s, OF assms]
  by (simp_all add: emitAll_fields resolved_fields)

lemma response_chunk_actionId:
  assumes "message ''ActionID'' = Some a" and "a \<noteq> []" and "pendingActions s a = Some k"
  shows "actionId s \<le> actionId (socketData [(message, gen, rnd, now)] s)"
  unfolding response_chunk [where message = message and s = s, OF assms]
  using resolved_fields(4) [of "s\<lparr>pendingActions := (pendingActions s)(a := None),
                             settled := settled s @ [(a, k, Inr message)]\<rparr>" k message rnd now]
  by (simp add: emitAll_fields)

lemma generateActionId_neq: "n \<noteq> m \<Longrightarrow> generateActionId n t \<noteq> generateActionId m u"
  using generateActionId_inj by blast

lemma responses_one_chunk:
  assumes "m1 ''ActionID'' = Some a1" and "m2 ''ActionID'' = Some a2" and "a1 \<noteq> []"
    and "a2 \<noteq> []" and "a1 \<noteq> a2"
    and "pendingActions s a1 = Some k1" and "pendingActions s a2 = Some k2"
  shows "settled (socketData [(m2, g3, r3, t3), (m1, g4, r4, t4)] s)
           = settled s @ [(a2, k2, Inr m2), (a1, k1, Inr m1)]"
  using assms
  by (simp add: socketData_def handleAmiMessage_def runTask_def truthy_def orElse_def Let_def
      split_def emitAll_fields resolved_fields)

text \<open>
  C8. Two commands submitted one after the other on a connected client are registered
  under two different action identifiers. When the response to the second arrives first
  and the response to the first after it, each promise is resolved with the response that
  bears its own identifier, and both pending entries are removed. The same holds when
  the two responses arrive in that order in one chunk of socket data.
\<close>

theorem responses_by_identifier:
  assumes "isConnected s" and "amiSocket s"
    and "m1 ''ActionID'' = Some (generateActionId (actionId s + 1) t1)"
    and "m2 ''ActionID'' = Some (generateActionId (actionId s + 2) t2)"
  shows
    "let a1 = generateActionId (actionId s + 1) t1;
         a2 = generateActionId (actionId s + 2) t2;
         s1 = snd (sendAmiCommand c1 p1 t1 k1 s);
         s2 = snd (sendAmiCommand c2 p2 t2 k2 s1);
         s3 = socketData [(m2, g3, r3, t3)] s2;
         s4 = socketData [(m1, g4, r4, t4)] s3
     in fst (sendAmiCommand c1 p1 t1 k1 s) = Registered a1
        \<and> fst (sendAmiCommand c2 p2 t2 k2 s1) = Registered a2
        \<and> a1 \<noteq> a2
        \<and> pendingActions s2 a1 = Some k1 \<and> pendingActions s2 a2 = Some k2
        \<and> settled s3 = settled s @ [(a2, k2, Inr m2)]
        \<and> settled s4 = settled s @ [(a2, k2, Inr m2), (a1, k1, Inr m1)]
        \<and> pendingActions s4 a1 = None \<and> pendingActions s4 a2 = None
        \<and> settled (socketData [(m2, g3, r3, t3), (m1, g4, r4, t4)] s2)
            = settled s @ [(a2, k2, Inr m2), (a1, k1, Inr m1)]"
proof -
  let ?a1 = "generateActionId (actionId s + 1) t1"
  let ?a2 = "generateActionId (actionId s + 2) t2"
  let ?s1 = "snd (sendAmiCommand c1 p1 t1 k1 s)"
  let ?s2 = "snd (sendAmiCommand c2 p2 t2 k2 ?s1)"
  let ?s3 = "socketData [(m2, g3, r3, t3)] ?s2"
  let ?s4 = "socketData [(m1, g4, r4, t4)] ?s3"
  note c1 = sendAmiCommand_connected [OF assms(1,2), of c1 p1 t1 k1]
  have s1: "isConnected ?s1" "amiSocket ?s1" "actionId ?s1 = actionId s + 1"
    "settled ?s1 = settled s" "pendingActions ?s1 ?a1 = Some k1"
    using assms(1,2) by (simp_all add: c1)
  have n: "?a1 \<noteq> ?a2" by (rule generateActionId_neq) simp
  have c2: "sendAmiCommand c2 p2 t2 k2 ?s1 =
     (Registered ?a2,
      ?s1\<lparr>actionId := actionId s + 2,
        pendingActions := (pendingActions ?s1)(?a2 \<mapsto> k2),
        actionTimeouts := actionTimeouts ?s1 @ [(?a2, c2, 10000)],
        written := written ?s1 @ [amiMessage c2 ?a2 p2]\<rparr>)"
    using sendAmiCommand_connected [OF s1(1,2), of c2 p2 t2 k2] s1(3)
    by (simp add: numeral_2_eq_2)
  have s2: "actionId ?s2 = actionId s + 2" "settled ?s2 = settled s"
    "pendingActions ?s2 ?a1 = Some k1" "pendingActions ?s2 ?a2 = Some k2"
    using n s1 by (simp_all add: c2)
  have new3: "?a1 \<noteq> generateActionId (actionId ?s2 + 1) t3"
    "?a2 \<noteq> generateActionId (actionId ?s2 + 1) t3"
    unfolding s2(1) by (rule generateActionId_neq, simp)+
  note m2 = response_chunk_matched [where message = m2 and s = "?s2" and gen = g3
      and rnd = r3 and now = t3, OF assms(4) generateActionId_nonempty s2(4)]
  have s3: "settled ?s3 = settled s @ [(?a2, k2, Inr m2)]" "pendingActions ?s3 ?a2 = None"
    "pendingActions ?s3 ?a1 = Some k1"
    using m2(1) m2(2) [OF new3(2)] m2(3) [OF n new3(1)] s2 by simp_all
  have a3: "actionId s + 2 \<le> actionId ?s3"
    using response_chunk_actionId [where message = m2 and s = "?s2" and gen = g3
      and rnd = r3 and now = t3, OF assms(4) generateActionId_nonempty s2(4)]
      s2(1) by simp
  have new4: "?a1 \<noteq> generateActionId (actionId ?s3 + 1) t4"
    "?a2 \<noteq> generateActionId (actionId ?s3 + 1) t4"
    using a3 by (intro generateActionId_neq, simp)+
  note m1 = response_chunk_matched [where message = m1 and s = "?s3" and gen = g4
      and rnd = r4 and now = t4, OF assms(3) generateActionId_nonempty s3(3)]
  have s4: "settled ?s4 = settled s @ [(?a2, k2, Inr m2), (?a1, k1, Inr m1)]"
    "pendingActions ?s4 ?a1 = None" "pendingActions ?s4 ?a2 = None"
    using m1(1) m1(2) [OF new4(1)] m1(3) [OF n [symmetric] new4(2)] s3 by simp_all
  have one: "settled (socketData [(m2, g3, r3, t3), (m1, g4, r4, t4)] ?s2)
            = settled s @ [(?a2, k2, Inr m2), (?a1, k1, Inr m1)]"
    using responses_one_chunk [where ?m1.0 = m1 and ?m2.0 = m2 and s = "?s2",
        OF assms(3,4) generateActionId_nonempty generateActionId_nonempty n s2(3,4)] s2(2)
    by simp
  show ?thesis
    unfolding Let_def using c1 c2 n s2 s3 s4 one by simp
qed

theorem responses_by_identifier_witness:
  "isConnected connected_state \<and> amiSocket connected_state
   \<and> resp1 ''ActionID'' = Some ''action_1_1700'' \<and> resp2 ''ActionID'' = Some ''action_2_1705''
   \<and> settled
        (socketData [(resp1, ''g'', 0, 1720)]
          (socketData [(resp2, ''g'', 0, 1710)]
            (snd (sendAmiCommand ''Ping'' [] 1705 (KCaller 2)
              (snd (sendAmiCommand ''Hangup'' [(''Channel'', ''SIP/1001-5'')] 1700 (KCaller 1)
                 connected_state))))))
       = [(''action_2_1705'', KCaller 2, Inr resp2), (''action_1_1700'', KCaller 1, Inr resp1)]"
proof -
  have h: "isConnected connected_state" "amiSocket connected_state"
    by (simp_all add: connected_state_def initial_def)
  have a: "generateActionId (actionId connected_state + 1) 1700 = ''action_1_1700''"
    "generateActionId (actionId connected_state + 2) 1705 = ''action_2_1705''"
    by (simp_all add: connected_state_def initial_def generateActionId_def show_int_def
        show_nat.simps digit_def)
  have m: "resp1 ''ActionID'' = Some (generateActionId (actionId connected_state + 1) 1700)"
    "resp2 ''ActionID'' = Some (generateActionId (actionId connected_state + 2) 1705)"
    unfolding a by (simp_all add: resp1_def resp2_def)
  have e: "settled connected_state = []"
    by (simp add: connected_state_def initial_def)
  note t = responses_by_identifier [where s = connected_state and ?m1.0 = resp1
      and ?m2.0 = resp2 and ?t1.0 = 1700 and ?t2.0 = 1705 and ?c1.0 = "''Hangup''"
      and ?p1.0 = "[(''Channel'', ''SIP/1001-5'')]" and ?k1.0 = "KCaller 1"
      and ?c2.0 = "''Ping''" and ?p2.0 = "[]" and ?k2.0 = "KCaller 2"
      and ?g3.0 = "''g''" and ?r3.0 = 0 and ?t3.0 = 1710
      and ?g4.0 = "''g''" and ?r4.0 = 0 and ?t4.0 = 1720,
      OF h m, unfolded Let_def a]
  show ?thesis
    using t h m e unfolding a by simp
qed


section \<open>Timeout of a command\<close>

text \<open>
  On a client with a pending action, the timer rejects the promise with the timeout error
  and removes the entry, and a later message with that identifier matches nothing. After
  \<open>cleanup\<close>, which clears the table without rejecting, the timer finds no entry and
  settles nothing.
\<close>

lemma late_response_unmatched:
  assumes "message ''ActionID'' = Some a" and "pendingActions s a = None"
  shows "handleAmiMessage message gen rnd now s
         = (if truthy (message ''Event'') then handleAmiEvent message gen now s else (s, []))"
  using assms by (auto simp: handleAmiMessage_def orElse_def truthy_def)

lemma timeout_after_cleanup:
  "settled (actionTimeout a command now (cleanup s)) = settled s
   \<and> finished (actionTimeout a command now (cleanup s)) = finished s"
  by (simp add: actionTimeout_def cleanup_def Let_def)



section \<open>The client never becomes ready\<close>

lemma sendAmiCommand_disconnected:
  "\<not> isConnected s \<Longrightarrow> sendAmiCommand c p n k s = (Rejected NotConnected, s)"
  by (simp add: sendAmiCommand_def)

lemma quiet_fields:
  "isConnected (emitAsterisk e s) = isConnected s"
  "pendingActions (emitAsterisk e s) = pendingActions s"
  "isConnected (emitTwilio e s) = isConnected s"
  "pendingActions (emitTwilio e s) = pendingActions s"
  "isConnected (finishMakeCall i f t r n s) = isConnected s"
  "isConnected (finishHangup i c n s) = isConnected s"
  "isConnected (finishReject i n s) = isConnected s"
  "written (emitAsterisk e s) = written s"
  "written (emitTwilio e s) = written s"
  "written (finishMakeCall i f t r n s) = written s"
  "written (finishHangup i c n s) = written s"
  "written (finishReject i n s) = written s"
  "connectEmitted (emitAsterisk e s) = connectEmitted s"
  "connectEmitted (emitTwilio e s) = connectEmitted s"
  "connectEmitted (finishMakeCall i f t r n s) = connectEmitted s"
  "connectEmitted (finishHangup i c n s) = connectEmitted s"
  "connectEmitted (finishReject i n s) = connectEmitted s"
  by (simp_all add: emitAsterisk_def emitTwilio_def finishMakeCall_def finishHangup_def
      finishReject_def Let_def)

lemma handleAmiMessage_quiet:
  assumes "quiet s"
  shows "quiet (fst (handleAmiMessage m g r n s))"
    and "\<forall>k m' r' n'. TSettled k m' r' n' \<notin> set (snd (handleAmiMessage m g r n s))"
  using assms
  by (auto simp: quiet_def handleAmiMessage_def handleAmiEvent_def handleIncomingCall_def
      handleCallHangup_def handleCallConnected_def Let_def split: option.splits)

lemma startHandlers_quiet:
  "quiet s \<Longrightarrow>
   quiet (fst (startHandlers msgs s))
   \<and> (\<forall>k m' r' n'. TSettled k m' r' n' \<notin> set (snd (startHandlers msgs s)))"
proof (induction msgs arbitrary: s)
  case Nil
  then show ?case by simp
next
  case (Cons x xs)
  obtain m g r n where x: "x = (m, g, r, n)" by (cases x)
  note h = handleAmiMessage_quiet [OF Cons.prems, of m g r n]
  show ?case
    using Cons.IH [OF h(1)] h(2) by (simp add: x split_def)
qed

lemma runTask_quiet:
  assumes "quiet s" and "\<forall>k m r n. t \<noteq> TSettled k m r n"
  shows "quiet (fst (runTask t s))"
  using assms
  by (cases t) (simp_all add: quiet_def runTask_def emitAsterisk_def Let_def split: option.splits)

lemma runTasks_quiet:
  "quiet s \<Longrightarrow> \<forall>k m r n. TSettled k m r n \<notin> set q \<Longrightarrow> quiet (fst (runTasks q s))"
proof (induction q arbitrary: s)
  case Nil
  then show ?case by simp
next
  case (Cons t ts)
  have "quiet (fst (runTask t s))"
    using runTask_quiet [OF Cons.prems(1), of t] Cons.prems(2) by auto
  then show ?case
    using Cons.IH [of "fst (runTask t s)"] Cons.prems(2) by (simp add: split_def)
qed

lemma socketData_quiet:
  assumes "quiet s"
  shows "quiet (socketData msgs s)"
proof -
  note h = startHandlers_quiet [OF assms, of msgs]
  have "quiet (fst (runTasks (snd (startHandlers msgs s)) (fst (startHandlers msgs s))))"
    using runTasks_quiet h by blast
  then show ?thesis
    by (simp add: socketData_def split_def quiet_def emitAll_fields)
qed

lemma asterisk_ops_quiet:
  assumes "quiet s"
  shows "quiet (snd (makeCall f t g r n s))"
    and "quiet (snd (hangupCall i n s))"
    and "quiet (snd (acceptCall i s))"
    and "quiet (snd (rejectCall i n s))"
    and "quiet (snd (simulateIncomingCall f t g r n s))"
  using assms
  by (simp_all add: quiet_def makeCall_def hangupCall_def acceptCall_def rejectCall_def
      simulateIncomingCall_def quiet_fields finish_fields Let_def split: option.splits)

lemma twilio_ops_quiet:
  assumes "quiet s"
  shows "quiet (snd (handleIncomingWebhook q g n s))"
    and "quiet (handleDialStatus d n s)"
    and "quiet (snd (makeOutgoingCall f t api n s))"
    and "quiet (snd (endTwilioCall i api2 n s))"
  using assms
  by (simp_all add: quiet_def handleIncomingWebhook_def handleDialStatus_def makeOutgoingCall_def
      endTwilioCall_def quiet_fields Let_def split: option.splits sum.splits prod.splits)

lemma snd_wrap: "snd (wrap w r) = snd r"
  by (cases r; cases "fst r") (auto simp: wrap_def split: outcome.splits)

lemma service_ops_quiet:
  assumes "quiet s"
  shows "quiet (snd (initiateCall f t p g r api n s))"
    and "quiet (snd (endCall i api2 n s))"
    and "quiet (snd (svc_acceptCall i s))"
    and "quiet (snd (svc_rejectCall i api2 n s))"
    and "quiet (snd (svc_simulateIncomingCall f pr g r n s))"
  using asterisk_ops_quiet [OF assms] twilio_ops_quiet [OF assms] assms
  by (simp_all add: initiateCall_def endCall_def svc_acceptCall_def svc_rejectCall_def
      svc_simulateIncomingCall_def snd_wrap split: option.splits)

lemma client_events_quiet:
  assumes "quiet s"
  shows "quiet (socketConnect n s)"
    and "quiet (socketError s)"
    and "quiet (socketClose s)"
    and "quiet (reconnectTimerFires s)"
    and "quiet (actionTimeout a c n s)"
    and "quiet (reconnect s)"
    and "quiet (cleanup s)"
    and "quiet (svc_cleanup s)"
  using assms
  by (simp_all add: quiet_def socketConnect_def socketError_def socketClose_def
      scheduleReconnect_def reconnectTimerFires_def actionTimeout_def reconnect_def cleanup_def
      svc_cleanup_def connectToAsterisk_def sendAmiCommand_disconnected Let_def
      split: option.splits)

lemma step_quiet:
  assumes "quiet s"
  shows "quiet (step x s)"
  using asterisk_ops_quiet [OF assms] twilio_ops_quiet [OF assms] service_ops_quiet [OF assms]
    client_events_quiet [OF assms] socketData_quiet [OF assms] assms
  by (cases x) (simp_all add: sendAmiCommand_disconnected quiet_def)

lemma run_quiet:
  "quiet (run ops (initial u p c))"
proof (induction ops rule: rev_induct)
  case Nil
  show ?case by (simp add: run_def initial_def quiet_def)
next
  case (snoc x xs)
  have "run (xs @ [x]) (initial u p c) = step x (run xs (initial u p c))"
    by (simp add: run_def)
  with step_quiet [of "run xs (initial u p c)" x] snoc show ?case by simp
qed

text \<open>
  C10. In every state the running service can reach, \<open>isConnected\<close> is false. The socket's
  \<open>connect\<close> handler submits \<open>Login\<close> through \<open>sendAmiCommand\<close> while \<open>isConnected\<close> is
  still false, so the command is rejected at once and \<open>isConnected\<close> stays false. Hence
  every call of \<open>sendAmiCommand\<close> is rejected with "Not connected to Asterisk AMI", nothing
  is ever pending or written to the socket, and \<open>makeCall\<close> takes its simulation branch.
\<close>

theorem never_connected:
  "\<not> isConnected (run ops (initial u p c))
   \<and> \<not> isConnected (socketConnect now (run ops (initial u p c)))
   \<and> sendAmiCommand command params now k (run ops (initial u p c))
       = (Rejected NotConnected, run ops (initial u p c))
   \<and> pendingActions (run ops (initial u p c)) = Map.empty
   \<and> written (run ops (initial u p c)) = []
   \<and> makeCall f t g r now (run ops (initial u p c))
       = (Done g, finishMakeCall g f t r now (run ops (initial u p c)))"
proof -
  have q: "quiet (run ops (initial u p c))" by (rule run_quiet)
  then have n: "\<not> isConnected (run ops (initial u p c))" by (simp add: quiet_def)
  have "quiet (socketConnect now (run ops (initial u p c)))"
    using client_events_quiet(1) [OF q] .
  then show ?thesis
    using q n by (simp add: quiet_def sendAmiCommand_disconnected makeCall_def)
qed

theorem never_connected_witness:
  "\<not> isConnected (run [SocketConnect 1000, SocketData [(resp1, ''g'', 0, 1100)], SocketClose,
        ReconnectTimerFires, SocketConnect 3200] (initial ''admin'' ''asterisk'' False))
   \<and> fst (sendAmiCommand ''Ping'' [] 3300 (KCaller 0)
        (run [SocketConnect 1000, SocketData [(resp1, ''g'', 0, 1100)], SocketClose,
           ReconnectTimerFires, SocketConnect 3200] (initial ''admin'' ''asterisk'' False)))
       = Rejected NotConnected"
  using never_connected [of "[SocketConnect 1000, SocketData [(resp1, ''g'', 0, 1100)], SocketClose,
        ReconnectTimerFires, SocketConnect 3200]" "''admin''" "''asterisk''" False 3300
        "''Ping''" "[]" "KCaller 0"]
  by simp

section \<open>End time and duration of finished calls\<close>

text \<open>
  C2. The code breaks the invariant. \<open>rejectCall\<close> on an incoming call leaves it \<open>ended\<close>
  with \<open>endTime\<close> set and no \<open>duration\<close>; so does the dial status \<open>busy\<close>; and the webhook
  status \<open>canceled\<close> leaves the call \<open>ended\<close> with neither \<open>endTime\<close> nor \<open>duration\<close>.
\<close>

theorem rejectCall_leaves_no_duration:
  "calls (run [SimulateIncomingCall ''2000'' ''1001'' ''c1'' 7 1000, RejectCall ''c1'' 5000]
        (initial ''admin'' ''asterisk'' False)) ''c1''
     = Some (ended_call\<lparr>duration := None\<rparr>)
   \<and> calls (run [IncomingWebhook ringing_req ''g'' 1000,
          DialStatus \<lparr>dl_CallSid = Some ''CA1'', dl_DialCallStatus = Some ''busy'',
                      dl_DialCallDuration = None\<rparr> 5000]
        (initial ''admin'' ''asterisk'' False)) ''CA1''
     = Some (twilio_call\<lparr>status := Ended, endTime := Some 5000\<rparr>)
   \<and> calls (run [IncomingWebhook ringing_req ''g'' 1000,
          IncomingWebhook (ringing_req\<lparr>wh_CallStatus := Some ''canceled''\<rparr>) ''g'' 5000]
        (initial ''admin'' ''asterisk'' False)) ''CA1''
     = Some (twilio_call\<lparr>status := Ended\<rparr>)"
  by (simp add: eval_defs ended_call_def twilio_call_def ringing_req_def
      handleIncomingWebhook_def handleDialStatus_def mapCallStatus_def
      mapTwilioStatusToCallStatus_def)

end
